theory Spec2Isabelle
  imports Complex_Main
begin

section \<open>The buzz-wire game of \<open>PythonServer/buzz_wire_game.py\<close>\<close>

text \<open>
  A shallow embedding of the class \<open>BuzzWireGame\<close>. Python floats are read as real
  numbers (no rounding error); the one non-finite value the code creates,
  \<open>float('inf')\<close>, is a constructor of its own. A decimal literal of the source is the
  same decimal here. The two readings of \<open>time.time()\<close> that \<open>update\<close> makes are
  parameters of the model.
\<close>

subsection \<open>Values\<close>

text \<open>A float that is finite or \<open>float('inf')\<close>.\<close>

datatype pyfloat = Fin real | PInf

text \<open>The comparison \<open>a < b\<close> of two such floats.\<close>

fun pf_less :: "pyfloat \<Rightarrow> pyfloat \<Rightarrow> bool" where
  "pf_less (Fin a) (Fin b) = (a < b)"
| "pf_less (Fin a) PInf = True"
| "pf_less PInf b = False"

text \<open>Python's \<open>min(a, b)\<close>: the first argument unless the second is smaller.\<close>

definition pf_min :: "pyfloat \<Rightarrow> pyfloat \<Rightarrow> pyfloat" where
  "pf_min a b = (if pf_less b a then b else a)"

text \<open>
  \<open>round(x, n)\<close> on a float: to \<open>n\<close> decimals, a tie going to the even neighbour;
  an infinity rounds to itself.
\<close>

definition round_half_even :: "real \<Rightarrow> int" where
  "round_half_even x =
     (let f = \<lfloor>x\<rfloor>; d = x - of_int f
      in if d < 1 / 2 then f
         else if 1 / 2 < d then f + 1
         else if even f then f else f + 1)"

definition py_round :: "real \<Rightarrow> nat \<Rightarrow> real" where
  "py_round x n = of_int (round_half_even (x * 10 ^ n)) / 10 ^ n"

fun pf_round :: "pyfloat \<Rightarrow> nat \<Rightarrow> pyfloat" where
  "pf_round (Fin x) n = Fin (py_round x n)"
| "pf_round PInf n = PInf"

text \<open>The exceptions the class can raise on a list of numbers of the wrong length.\<close>

datatype py_error = ValueError | IndexError

text \<open>
  The argument of \<open>update\<close>: one point \<open>[x, y, z]\<close> or a list of points
  \<open>[[x, y, z], ...]\<close>. A point is a list of numbers, of any length.
\<close>

datatype positions = Point "real list" | Points "real list list"

subsection \<open>The game object\<close>

record game =
  collision_threshold :: real
  track_points :: "real list list"
  start_zone :: "real list"
  end_zone :: "real list"
  zone_radius :: real
  game_started :: bool
  game_completed :: bool
  timing_started :: bool
  start_time :: "real option"
  elapsed_time :: real
  collision_count :: int
  is_colliding :: bool
  last_collision_time :: real
  cooldown :: real

text \<open>The dictionary that \<open>get_state\<close> returns.\<close>

record snapshot =
  snap_game_started :: bool
  snap_game_completed :: bool
  snap_timing_started :: bool
  snap_elapsed_time :: real
  snap_collision_count :: int
  snap_is_colliding :: bool
  snap_distance_to_track :: pyfloat
  snap_collision_threshold :: real

definition define_track :: "real list list" where
  "define_track =
     [[-0.5, 1.0, 0.0],
      [-0.3, 1.1, 0.0],
      [-0.1, 1.2, 0.05],
      [0.0, 1.15, 0.1],
      [0.1, 1.25, 0.05],
      [0.2, 1.1, 0.0],
      [0.3, 1.15, -0.1],
      [0.4, 1.2, -0.15],
      [0.5, 1.3, -0.1],
      [0.55, 1.35, 0.0],
      [0.5, 1.4, 0.1],
      [0.6, 1.3, 0.1],
      [0.7, 1.2, 0.05],
      [0.8, 1.1, 0.0]]"

definition reset :: "game \<Rightarrow> game" where
  "reset g = g\<lparr>game_started := False,
               game_completed := False,
               timing_started := False,
               start_time := None,
               elapsed_time := 0.0,
               collision_count := 0,
               is_colliding := False,
               last_collision_time := 0.0,
               cooldown := 0.5\<rparr>"

text \<open>
  The constructor. It sets the five configuration attributes and calls \<open>reset\<close>, which
  assigns every other attribute; the values they are given before that call here are
  all overwritten.
\<close>

definition init :: "real \<Rightarrow> game" where
  "init thr =
     reset \<lparr>collision_threshold = thr,
            track_points = define_track,
            start_zone = define_track ! 0,
            end_zone = last define_track,
            zone_radius = 0.1,
            game_started = False, game_completed = False, timing_started = False,
            start_time = None, elapsed_time = 0, collision_count = 0,
            is_colliding = False, last_collision_time = 0, cooldown = 0\<rparr>"

definition start_game :: "game \<Rightarrow> game" where
  "start_game g = (reset g)\<lparr>game_started := True, timing_started := False, start_time := None\<rparr>"

definition get_state :: "game \<Rightarrow> pyfloat \<Rightarrow> snapshot" where
  "get_state g distance =
     \<lparr>snap_game_started = game_started g,
      snap_game_completed = game_completed g,
      snap_timing_started = timing_started g,
      snap_elapsed_time = py_round (elapsed_time g) 2,
      snap_collision_count = collision_count g,
      snap_is_colliding = is_colliding g,
      snap_distance_to_track =
        (if \<not> pf_less distance (Fin 0) then pf_round distance 4 else Fin (- 1)),
      snap_collision_threshold = collision_threshold g\<rparr>"

subsection \<open>Geometry\<close>

text \<open>
  \<open>_point_to_segment_distance\<close>. Each of the three unpackings \<open>px, py, pz = point\<close>
  raises \<open>ValueError\<close> on a list that has not exactly three elements.
\<close>

fun point_to_segment_distance :: "real list \<Rightarrow> real list \<Rightarrow> real list \<Rightarrow> py_error + real" where
  "point_to_segment_distance [px, py, pz] [ax, ay, az] [bx, by, bz] =
     (let vx = bx - ax; vy = by - ay; vz = bz - az;
          wx = px - ax; wy = py - ay; wz = pz - az;
          v_dot_v = vx * vx + vy * vy + vz * vz
      in if v_dot_v < 1 / 10 ^ 10 then Inr (sqrt (wx * wx + wy * wy + wz * wz))
         else
           let w_dot_v = wx * vx + wy * vy + wz * vz;
               t = max 0 (min 1 (w_dot_v / v_dot_v));
               closest_x = ax + t * vx; closest_y = ay + t * vy; closest_z = az + t * vz;
               dx = px - closest_x; dy = py - closest_y; dz = pz - closest_z
           in Inr (sqrt (dx * dx + dy * dy + dz * dz)))"
| "point_to_segment_distance point seg_start seg_end = Inl ValueError"

text \<open>
  \<open>_is_in_zone\<close> reads the indices 0, 1 and 2 of both lists: \<open>IndexError\<close> on a list
  shorter than three, and further elements are ignored.
\<close>

fun is_in_zone :: "game \<Rightarrow> real list \<Rightarrow> real list \<Rightarrow> py_error + bool" where
  "is_in_zone g (p0 # p1 # p2 # ps) (c0 # c1 # c2 # cs) =
     (let dx = p0 - c0; dy = p1 - c1; dz = p2 - c2;
          distance = sqrt (dx * dx + dy * dy + dz * dz)
      in Inr (distance < zone_radius g))"
| "is_in_zone g position zone_center = Inl IndexError"

text \<open>
  The loop of \<open>_calculate_min_distance_to_track\<close> over the indices
  \<open>range(len(track_points) - 1)\<close>, with the running minimum as accumulator.
\<close>

fun min_over_segments :: "real list list \<Rightarrow> real list \<Rightarrow> nat list \<Rightarrow> pyfloat \<Rightarrow> py_error + pyfloat" where
  "min_over_segments tr point [] min_distance = Inr min_distance"
| "min_over_segments tr point (i # is) min_distance =
     (case point_to_segment_distance point (tr ! i) (tr ! (i + 1)) of
        Inl e \<Rightarrow> Inl e
      | Inr distance \<Rightarrow> min_over_segments tr point is (pf_min min_distance (Fin distance)))"

definition calculate_min_distance_to_track :: "game \<Rightarrow> real list \<Rightarrow> py_error + pyfloat" where
  "calculate_min_distance_to_track g point =
     min_over_segments (track_points g) point [0 ..< length (track_points g) - 1] PInf"

subsection \<open>The update step\<close>

text \<open>The input normalisation: a non-empty flat list of numbers is one point.\<close>

fun normalize :: "positions \<Rightarrow> real list list" where
  "normalize (Point []) = []"
| "normalize (Point (x # xs)) = [x # xs]"
| "normalize (Points ps) = ps"

definition first_point :: "real list list \<Rightarrow> real list" where
  "first_point ps = (case ps of [] \<Rightarrow> [0, 0, 0] | p # _ \<Rightarrow> p)"

text \<open>The loop of \<open>update\<close> over the points, with the running minimum as accumulator.\<close>

fun min_over_points :: "game \<Rightarrow> real list list \<Rightarrow> pyfloat \<Rightarrow> py_error + pyfloat" where
  "min_over_points g [] min_distance = Inr min_distance"
| "min_over_points g (point # ps) min_distance =
     (case calculate_min_distance_to_track g point of
        Inl e \<Rightarrow> Inl e
      | Inr dist_p \<Rightarrow> min_over_points g ps (pf_min min_distance dist_p))"

text \<open>\<open>if self.start_time: self.elapsed_time = time.time() - self.start_time\<close>;
  \<open>None\<close> and \<open>0.0\<close> are both false.\<close>

definition update_elapsed :: "game \<Rightarrow> real \<Rightarrow> game" where
  "update_elapsed g now =
     (case start_time g of
        None \<Rightarrow> g
      | Some st \<Rightarrow> if st \<noteq> 0 then g\<lparr>elapsed_time := now - st\<rparr> else g)"

text \<open>The collision block of \<open>update\<close>: the flag, then the count under the cooldown.\<close>

definition detect_collision :: "game \<Rightarrow> pyfloat \<Rightarrow> real \<Rightarrow> game" where
  "detect_collision g min_distance current_time =
     (let was_colliding = is_colliding g;
          g1 = g\<lparr>is_colliding := pf_less min_distance (Fin (collision_threshold g))\<rparr>
      in if is_colliding g1 \<and> \<not> was_colliding then
           if cooldown g1 < current_time - last_collision_time g1
           then g1\<lparr>collision_count := collision_count g1 + 1,
                   last_collision_time := current_time\<rparr>
           else g1
         else g1)"

text \<open>
  \<open>update\<close>. The result is the object after the call and what the call produced: the
  snapshot, or the exception it raised. An exception leaves the object as the
  assignments before it made it. \<open>t_timer\<close> is the reading of the clock for the timer
  (\<open>start_time\<close>, \<open>elapsed_time\<close>), \<open>t_coll\<close> the later reading \<open>current_time\<close>.
\<close>

definition update :: "game \<Rightarrow> positions \<Rightarrow> real \<Rightarrow> real \<Rightarrow> game \<times> (py_error + snapshot)" where
  "update g positions t_timer t_coll =
     (if \<not> game_started g \<or> game_completed g then (g, Inr (get_state g (Fin (- 1))))
      else
        let ps = normalize positions;
            fp = first_point ps
        in if \<not> timing_started g then
             (case is_in_zone g fp (start_zone g) of
                Inl e \<Rightarrow> (g, Inl e)
              | Inr inside \<Rightarrow>
                  let g1 = (if inside then g\<lparr>timing_started := True, start_time := Some t_timer\<rparr>
                            else g)
                  in (g1, Inr (get_state g1 (Fin (- 1)))))
           else
             let g1 = update_elapsed g t_timer
             in (case min_over_points g1 ps PInf of
                   Inl e \<Rightarrow> (g1, Inl e)
                 | Inr min_distance \<Rightarrow>
                     let g2 = detect_collision g1 min_distance t_coll
                     in (case is_in_zone g2 fp (end_zone g2) of
                           Inl e \<Rightarrow> (g2, Inl e)
                         | Inr inside \<Rightarrow>
                             let g3 = (if inside then g2\<lparr>game_completed := True\<rparr> else g2)
                             in (g3, Inr (get_state g3 min_distance)))))"

subsection \<open>Sessions\<close>

text \<open>A sequence of \<open>update\<close> calls on one object, each with its positions and its two
  clock readings; a call that raises leaves the object to the next call.\<close>

fun run_updates :: "game \<Rightarrow> (positions \<times> real \<times> real) list \<Rightarrow> game" where
  "run_updates g [] = g"
| "run_updates g ((ps, t_timer, t_coll) # calls) =
     run_updates (fst (update g ps t_timer t_coll)) calls"

text \<open>The clock readings \<open>current_time\<close> of the calls of a sequence that changed
  \<open>collision_count\<close>, in order.\<close>

fun increment_times :: "game \<Rightarrow> (positions \<times> real \<times> real) list \<Rightarrow> real list" where
  "increment_times g [] = []"
| "increment_times g ((ps, t_timer, t_coll) # calls) =
     (let g' = fst (update g ps t_timer t_coll)
      in (if collision_count g' = collision_count g then [] else [t_coll])
         @ increment_times g' calls)"

text \<open>The objects that the constructor and any sequence of \<open>reset\<close>, \<open>start_game\<close> and
  \<open>update\<close> calls produce.\<close>

inductive reachable :: "game \<Rightarrow> bool" where
  reach_init: "reachable (init thr)"
| reach_reset: "reachable g \<Longrightarrow> reachable (reset g)"
| reach_start: "reachable g \<Longrightarrow> reachable (start_game g)"
| reach_update: "reachable g \<Longrightarrow> reachable (fst (update g ps t_timer t_coll))"

subsection \<open>Vectors, for stating the geometry\<close>

definition vsub :: "real list \<Rightarrow> real list \<Rightarrow> real list" where
  "vsub u v = map2 (-) u v"

definition vadd :: "real list \<Rightarrow> real list \<Rightarrow> real list" where
  "vadd u v = map2 (+) u v"

definition smul :: "real \<Rightarrow> real list \<Rightarrow> real list" where
  "smul c v = map ((*) c) v"

definition dot :: "real list \<Rightarrow> real list \<Rightarrow> real" where
  "dot u v = sum_list (map2 (*) u v)"

definition vnorm :: "real list \<Rightarrow> real" where
  "vnorm v = sqrt (dot v v)"

definition clamp :: "real \<Rightarrow> real \<Rightarrow> real \<Rightarrow> real" where
  "clamp x lo hi = (if x < lo then lo else if hi < x then hi else x)"

text \<open>
  The distance from a point to a segment in the words of the specification: with
  \<open>v = B - A\<close> and \<open>w = P - A\<close>, it is \<open>|w|\<close> when \<open>v \<cdot> v\<close> is below \<open>1e-10\<close>, and
  otherwise \<open>|P - (A + t v)|\<close> for \<open>t = clamp (w \<cdot> v / v \<cdot> v, 0, 1)\<close>.
\<close>

definition segment_distance :: "real list \<Rightarrow> real list \<Rightarrow> real list \<Rightarrow> real" where
  "segment_distance P A B =
     (let v = vsub B A; w = vsub P A
      in if dot v v < 1 / 10 ^ 10 then vnorm w
         else vnorm (vsub P (vadd A (smul (clamp (dot w v / dot v v) 0 1) v))))"

text \<open>The distances from a point to the segments between consecutive track points.\<close>

definition track_distances :: "real list list \<Rightarrow> real list \<Rightarrow> real list" where
  "track_distances tr q =
     map (\<lambda>i. segment_distance q (tr ! i) (tr ! (i + 1))) [0 ..< length tr - 1]"

text \<open>The distances from each of the points to each of the segments of the track.\<close>

definition all_distances :: "real list list \<Rightarrow> real list list \<Rightarrow> real set" where
  "all_distances tr ps =
     {segment_distance q (tr ! i) (tr ! (i + 1)) | q i. q \<in> set ps \<and> i < length tr - 1}"

subsection \<open>A session played to the end\<close>

text \<open>
  A game with the default threshold after \<open>start_game\<close>; after a first \<open>update\<close> at
  the first track point, at time 100; and after a second \<open>update\<close> at the last track
  point, with the clock read at 101 and 101.5.
\<close>

definition session_armed :: game where
  "session_armed = start_game (init 0.05)"

definition session_timing :: game where
  "session_timing = fst (update session_armed (Point [-0.5, 1.0, 0.0]) 100 100)"

definition session_done :: game where
  "session_done = fst (update session_timing (Point [0.8, 1.1, 0.0]) 101 101.5)"

text \<open>
  The same object after a further \<open>start_game\<close>, and after an \<open>update\<close> at the first
  track point at time 101.625, which starts the timing of the new session.
\<close>

definition session_restarted :: game where
  "session_restarted = start_game session_done"

definition session_retiming :: game where
  "session_retiming = fst (update session_restarted (Point [-0.5, 1.0, 0.0]) 101.625 101.625)"

section \<open>Auxiliary facts\<close>

subsection \<open>What a call leaves alone\<close>

lemma update_when_inactive:
  "\<not> game_started g \<or> game_completed g \<Longrightarrow> update g ps t1 t2 = (g, Inr (get_state g (Fin (- 1))))"
  by (simp add: update_def)

lemma detect_collision_config:
  "collision_threshold (detect_collision g m t) = collision_threshold g"
  "track_points (detect_collision g m t) = track_points g"
  "start_zone (detect_collision g m t) = start_zone g"
  "end_zone (detect_collision g m t) = end_zone g"
  "zone_radius (detect_collision g m t) = zone_radius g"
  "cooldown (detect_collision g m t) = cooldown g"
  "game_started (detect_collision g m t) = game_started g"
  "game_completed (detect_collision g m t) = game_completed g"
  "timing_started (detect_collision g m t) = timing_started g"
  "start_time (detect_collision g m t) = start_time g"
  "elapsed_time (detect_collision g m t) = elapsed_time g"
  by (simp_all add: detect_collision_def Let_def)

lemma update_elapsed_config:
  "collision_threshold (update_elapsed g t) = collision_threshold g"
  "track_points (update_elapsed g t) = track_points g"
  "start_zone (update_elapsed g t) = start_zone g"
  "end_zone (update_elapsed g t) = end_zone g"
  "zone_radius (update_elapsed g t) = zone_radius g"
  "cooldown (update_elapsed g t) = cooldown g"
  "game_started (update_elapsed g t) = game_started g"
  "game_completed (update_elapsed g t) = game_completed g"
  "timing_started (update_elapsed g t) = timing_started g"
  "start_time (update_elapsed g t) = start_time g"
  "collision_count (update_elapsed g t) = collision_count g"
  "is_colliding (update_elapsed g t) = is_colliding g"
  "last_collision_time (update_elapsed g t) = last_collision_time g"
  by (simp_all add: update_elapsed_def split: option.split)

lemma update_config:
  "collision_threshold (fst (update g ps t1 t2)) = collision_threshold g"
  "track_points (fst (update g ps t1 t2)) = track_points g"
  "start_zone (fst (update g ps t1 t2)) = start_zone g"
  "end_zone (fst (update g ps t1 t2)) = end_zone g"
  "zone_radius (fst (update g ps t1 t2)) = zone_radius g"
  "cooldown (fst (update g ps t1 t2)) = cooldown g"
  "game_started (fst (update g ps t1 t2)) = game_started g"
  by (simp_all add: update_def Let_def detect_collision_config update_elapsed_config split: sum.split)

lemma reachable_config:
  "reachable g \<Longrightarrow>
     track_points g = define_track \<and> start_zone g = [-0.5, 1.0, 0.0] \<and>
     end_zone g = [0.8, 1.1, 0.0] \<and> zone_radius g = 0.1 \<and> cooldown g = 0.5"
proof (induction rule: reachable.induct)
  case (reach_init thr)
  show ?case by (simp add: init_def reset_def define_track_def)
next
  case (reach_reset g)
  then show ?case by (simp add: reset_def)
next
  case (reach_start g)
  then show ?case by (simp add: start_game_def reset_def)
next
  case (reach_update g ps t_timer t_coll)
  then show ?case by (simp add: update_config)
qed

lemma update_keeps_completed_inv:
  assumes "game_completed g \<longrightarrow> game_started g \<and> timing_started g"
  shows "game_completed (fst (update g ps t1 t2)) \<longrightarrow>
         game_started (fst (update g ps t1 t2)) \<and> timing_started (fst (update g ps t1 t2))"
  using assms
  by (auto simp add: update_def Let_def detect_collision_config update_elapsed_config
      split: sum.split)

lemma run_updates_completed:
  "game_completed g \<Longrightarrow> run_updates g calls = g"
  by (induction calls arbitrary: g) (auto simp add: update_when_inactive)

subsection \<open>Counting collisions\<close>

lemma detect_collision_step:
  "collision_count (detect_collision g m t) =
     (if \<not> is_colliding g \<and> is_colliding (detect_collision g m t) \<and>
         cooldown g < t - last_collision_time g
      then collision_count g + 1 else collision_count g) \<and>
   last_collision_time (detect_collision g m t) =
     (if \<not> is_colliding g \<and> is_colliding (detect_collision g m t) \<and>
         cooldown g < t - last_collision_time g
      then t else last_collision_time g)"
  by (simp add: detect_collision_def Let_def)

lemma update_fst_cases:
  "fst (update g ps t1 t2) = g \<or>
   (\<not> timing_started g \<and>
      fst (update g ps t1 t2) = g\<lparr>timing_started := True, start_time := Some t1\<rparr>) \<or>
   (timing_started g \<and> fst (update g ps t1 t2) = update_elapsed g t1) \<or>
   (timing_started g \<and>
      (\<exists>m. fst (update g ps t1 t2) = detect_collision (update_elapsed g t1) m t2)) \<or>
   (timing_started g \<and>
      (\<exists>m. fst (update g ps t1 t2) =
              (detect_collision (update_elapsed g t1) m t2)\<lparr>game_completed := True\<rparr>))"
  by (auto simp add: update_def Let_def split: sum.split)

lemma update_collision_step:
  "collision_count (fst (update g ps t1 t2)) =
     (if \<not> is_colliding g \<and> is_colliding (fst (update g ps t1 t2)) \<and>
         cooldown g < t2 - last_collision_time g
      then collision_count g + 1 else collision_count g) \<and>
   last_collision_time (fst (update g ps t1 t2)) =
     (if \<not> is_colliding g \<and> is_colliding (fst (update g ps t1 t2)) \<and>
         cooldown g < t2 - last_collision_time g
      then t2 else last_collision_time g)"
proof -
  let ?e = "update_elapsed g t1"
  have dc: "collision_count (detect_collision ?e m t2) =
     (if \<not> is_colliding g \<and> is_colliding (detect_collision ?e m t2) \<and>
         cooldown g < t2 - last_collision_time g
      then collision_count g + 1 else collision_count g) \<and>
   last_collision_time (detect_collision ?e m t2) =
     (if \<not> is_colliding g \<and> is_colliding (detect_collision ?e m t2) \<and>
         cooldown g < t2 - last_collision_time g
      then t2 else last_collision_time g)" for m
    using detect_collision_step [of ?e m t2] by (simp only: update_elapsed_config)
  consider "fst (update g ps t1 t2) = g"
    | "fst (update g ps t1 t2) = g\<lparr>timing_started := True, start_time := Some t1\<rparr>"
    | "fst (update g ps t1 t2) = ?e"
    | m where "fst (update g ps t1 t2) = detect_collision ?e m t2"
    | m where "fst (update g ps t1 t2) = (detect_collision ?e m t2)\<lparr>game_completed := True\<rparr>"
    using update_fst_cases [of g ps t1 t2] by blast
  then show ?thesis
  proof cases
    case 1
    then show ?thesis by auto
  next
    case 2
    then show ?thesis by auto
  next
    case 3
    then show ?thesis by (auto simp add: update_elapsed_config)
  next
    case (4 m)
    with dc [of m] show ?thesis by auto
  next
    case (5 m)
    with dc [of m] show ?thesis by auto
  qed
qed

lemma run_updates_count_mono:
  "collision_count g \<le> collision_count (run_updates g calls)"
proof (induction calls arbitrary: g)
  case Nil
  show ?case by simp
next
  case (Cons c calls)
  obtain ps t1 t2 where c: "c = (ps, t1, t2)" by (cases c)
  have "collision_count g \<le> collision_count (fst (update g ps t1 t2))"
    using update_collision_step [of g ps t1 t2] by (auto split: if_splits)
  also have "\<dots> \<le> collision_count (run_updates (fst (update g ps t1 t2)) calls)"
    by (rule Cons.IH)
  finally show ?case by (simp add: c)
qed



lemma increment_times_spaced:
  "successively (\<lambda>a b. cooldown g < b - a) (last_collision_time g # increment_times g calls)"
proof (induction calls arbitrary: g)
  case Nil
  show ?case by simp
next
  case (Cons c calls)
  obtain ps t1 t2 where c: "c = (ps, t1, t2)" by (cases c)
  let ?g' = "fst (update g ps t1 t2)"
  have cd: "cooldown ?g' = cooldown g" by (simp add: update_config)
  have IH: "successively (\<lambda>a b. cooldown g < b - a)
              (last_collision_time ?g' # increment_times ?g' calls)"
    using Cons.IH [of ?g'] by (simp add: cd)
  show ?case
  proof (cases "collision_count ?g' = collision_count g")
    case True
    then have "last_collision_time ?g' = last_collision_time g"
      using update_collision_step [of g ps t1 t2] by (auto split: if_splits)
    with IH True show ?thesis by (simp add: c)
  next
    case False
    then have "last_collision_time ?g' = t2" "cooldown g < t2 - last_collision_time g"
      using update_collision_step [of g ps t1 t2] by (auto split: if_splits)
    with IH False show ?thesis by (simp add: c)
  qed
qed

subsection \<open>The distance loops in closed form\<close>

lemma clamp_unit: "max 0 (min 1 x) = clamp x 0 1"
  by (simp add: clamp_def max_def min_def)

lemma dot_3: "dot [a, b, c] [d, e, f] = a * d + b * e + c * f"
  by (simp add: dot_def)

lemma vsub_3: "vsub [a, b, c] [d, e, f] = [a - d, b - e, c - f]"
  by (simp add: vsub_def)

lemma vadd_3: "vadd [a, b, c] [d, e, f] = [a + d, b + e, c + f]"
  by (simp add: vadd_def)

lemma smul_3: "smul k [a, b, c] = [k * a, k * b, k * c]"
  by (simp add: smul_def)

lemma point_to_segment_distance_3:
  "point_to_segment_distance [px, py, pz] [ax, ay, az] [bx, by, bz] =
     Inr (segment_distance [px, py, pz] [ax, ay, az] [bx, by, bz])"
  by (simp add: segment_distance_def vsub_3 vadd_3 smul_3 dot_3 vnorm_def
      clamp_unit Let_def)

lemma length_3: "length q = 3 \<Longrightarrow> \<exists>a b c. q = [a, b, c]"
  by (cases q; cases "tl q"; cases "tl (tl q)"; cases "tl (tl (tl q))") auto

lemma point_to_segment_distance_wf:
  assumes "length q = 3" "length a = 3" "length b = 3"
  shows "point_to_segment_distance q a b = Inr (segment_distance q a b)"
proof -
  from assms obtain q0 q1 q2 a0 a1 a2 b0 b1 b2
    where "q = [q0, q1, q2]" "a = [a0, a1, a2]" "b = [b0, b1, b2]"
    using length_3 by metis
  then show ?thesis by (simp only: point_to_segment_distance_3)
qed

lemma pf_min_Fin: "pf_min (Fin a) (Fin b) = Fin (min b a)"
  by (simp add: pf_min_def min_def)

lemma pf_min_PInf: "pf_min PInf (Fin b) = Fin b"
  by (simp add: pf_min_def)

lemma min_over_segments_Fin:
  assumes "length q = 3" "\<forall>i \<in> set is. length (tr ! i) = 3 \<and> length (tr ! (i + 1)) = 3"
  shows "min_over_segments tr q is (Fin a) =
     Inr (Fin (fold min (map (\<lambda>i. segment_distance q (tr ! i) (tr ! (i + 1))) is) a))"
  using assms(2)
proof (induction "is" arbitrary: a)
  case Nil
  show ?case by simp
next
  case (Cons i "is")
  then show ?case
    by (simp add: point_to_segment_distance_wf [OF assms(1)] pf_min_Fin)
qed

lemma min_over_segments_PInf:
  assumes "length q = 3" "\<forall>i \<in> set is. length (tr ! i) = 3 \<and> length (tr ! (i + 1)) = 3"
    and "is \<noteq> []"
  shows "min_over_segments tr q is PInf =
     Inr (Fin (Min (set (map (\<lambda>i. segment_distance q (tr ! i) (tr ! (i + 1))) is))))"
proof -
  from assms(3) obtain i js where js: "is = i # js" by (cases "is") auto
  with assms(2) have wf: "length (tr ! i) = 3" "length (tr ! (i + 1)) = 3"
    "\<forall>i \<in> set js. length (tr ! i) = 3 \<and> length (tr ! (i + 1)) = 3"
    by simp_all
  show ?thesis
    unfolding js
    by (simp only: min_over_segments.simps point_to_segment_distance_wf [OF assms(1) wf(1,2)]
        sum.case pf_min_PInf min_over_segments_Fin [OF assms(1) wf(3)] list.map
        Min.set_eq_fold)
qed

lemma calculate_min_distance_wf:
  assumes "length q = 3" "\<forall>p \<in> set (track_points g). length p = 3"
    and "2 \<le> length (track_points g)"
  shows "calculate_min_distance_to_track g q =
     Inr (Fin (Min (set (track_distances (track_points g) q))))"
proof -
  let ?tr = "track_points g"
  have "\<forall>i \<in> set [0 ..< length ?tr - 1]. length (?tr ! i) = 3 \<and> length (?tr ! (i + 1)) = 3"
    using assms(2) by simp
  moreover have "[0 ..< length ?tr - 1] \<noteq> []"
    using assms(3) by simp
  ultimately show ?thesis
    unfolding calculate_min_distance_to_track_def track_distances_def
    using assms(1) by (rule min_over_segments_PInf [rotated])
qed

lemma min_over_points_Fin:
  assumes "\<forall>p \<in> set (track_points g). length p = 3" "2 \<le> length (track_points g)"
    and "\<forall>q \<in> set ps. length q = 3"
  shows "min_over_points g ps (Fin a) =
     Inr (Fin (fold min (map (\<lambda>q. Min (set (track_distances (track_points g) q))) ps) a))"
  using assms(3)
proof (induction ps arbitrary: a)
  case Nil
  show ?case by simp
next
  case (Cons q ps)
  then show ?case
    by (simp add: calculate_min_distance_wf [OF _ assms(1,2)] pf_min_Fin)
qed

lemma min_over_points_PInf:
  assumes "\<forall>p \<in> set (track_points g). length p = 3" "2 \<le> length (track_points g)"
    and "\<forall>q \<in> set ps. length q = 3" "ps \<noteq> []"
  shows "min_over_points g ps PInf =
     Inr (Fin (Min (set (map (\<lambda>q. Min (set (track_distances (track_points g) q))) ps))))"
proof -
  from assms(4) obtain q qs where qs: "ps = q # qs" by (cases ps) auto
  with assms(3) have wf: "length q = 3" "\<forall>q \<in> set qs. length q = 3" by simp_all
  show ?thesis
    unfolding qs
    by (simp only: min_over_points.simps calculate_min_distance_wf [OF wf(1) assms(1,2)]
        sum.case pf_min_PInf min_over_points_Fin [OF assms(1,2) wf(2)] list.map
        Min.set_eq_fold)
qed

lemma all_distances_Union:
  "all_distances tr ps = (\<Union>q \<in> set ps. set (track_distances tr q))"
  by (auto simp add: all_distances_def track_distances_def) blast

lemma Min_all_distances:
  assumes "ps \<noteq> []" "2 \<le> length tr"
  shows "Min (set (map (\<lambda>q. Min (set (track_distances tr q))) ps)) = Min (all_distances tr ps)"
proof -
  have ne: "set (track_distances tr q) \<noteq> {}" for q
    using assms(2) by (simp add: track_distances_def)
  have fin: "finite (all_distances tr ps)"
    by (simp add: all_distances_Union)
  let ?M = "\<lambda>q. Min (set (track_distances tr q))"
  let ?m = "Min (set (map ?M ps))"
  have "?m \<in> set (map ?M ps)"
    using assms(1) by (intro Min_in) simp_all
  then obtain q0 where q0: "q0 \<in> set ps" "?m = ?M q0" by auto
  have "?M q0 \<in> set (track_distances tr q0)"
    using ne by (intro Min_in) simp_all
  with q0 have mem: "?m \<in> all_distances tr ps"
    by (auto simp add: all_distances_Union)
  have low: "?m \<le> y" if "y \<in> all_distances tr ps" for y
  proof -
    from that obtain q where q: "q \<in> set ps" "y \<in> set (track_distances tr q)"
      by (auto simp add: all_distances_Union)
    have "?m \<le> ?M q" using q(1) by (intro Min_le) simp_all
    also have "?M q \<le> y" using q(2) by (intro Min_le) simp_all
    finally show ?thesis .
  qed
  show ?thesis
    using fin low mem by (rule Min_eqI [symmetric])
qed

subsection \<open>The phases of \<open>update\<close>\<close>

lemma is_in_zone_wf:
  "is_in_zone g [x, y, z] [cx, cy, cz] =
     Inr (sqrt ((x - cx) * (x - cx) + (y - cy) * (y - cy) + (z - cz) * (z - cz)) < zone_radius g)"
  by (simp add: Let_def)

lemma update_timing_wf:
  assumes ph: "game_started g" "\<not> game_completed g" "timing_started g"
    and tr: "\<forall>p \<in> set (track_points g). length p = 3" "2 \<le> length (track_points g)"
    and ez: "end_zone g = [cx, cy, cz]"
    and ps: "normalize positions = [x, y, z] # qs" "\<forall>q \<in> set qs. length q = 3"
  shows "update g positions t1 t2 =
     (let D = Min (all_distances (track_points g) ([x, y, z] # qs));
          g2 = detect_collision (update_elapsed g t1) (Fin D) t2;
          g3 = (if sqrt ((x - cx) * (x - cx) + (y - cy) * (y - cy) + (z - cz) * (z - cz))
                     < zone_radius g
                then g2\<lparr>game_completed := True\<rparr> else g2)
      in (g3, Inr (get_state g3 (Fin D))))"
proof -
  let ?ps = "[x, y, z] # qs"
  let ?e = "update_elapsed g t1"
  have wf: "\<forall>q \<in> set ?ps. length q = 3" using ps(2) by simp
  have tr': "\<forall>p \<in> set (track_points ?e). length p = 3" "2 \<le> length (track_points ?e)"
    using tr by (simp_all add: update_elapsed_config)
  have "min_over_points ?e ?ps PInf =
      Inr (Fin (Min (set (map (\<lambda>q. Min (set (track_distances (track_points ?e) q))) ?ps))))"
    using tr' wf by (rule min_over_points_PInf) simp
  also have "\<dots> = Inr (Fin (Min (all_distances (track_points g) ?ps)))"
    using Min_all_distances [of ?ps "track_points g"] tr(2)
    by (simp only: update_elapsed_config) simp
  finally have m: "min_over_points ?e ?ps PInf =
      Inr (Fin (Min (all_distances (track_points g) ?ps)))" .
  show ?thesis
    using ph
    by (simp add: update_def ps(1) first_point_def m Let_def detect_collision_config
        update_elapsed_config ez del: min_over_points.simps)
qed

lemma sqrt_less_iff_square: "0 \<le> r \<Longrightarrow> sqrt x < r \<longleftrightarrow> x < r\<^sup>2"
proof -
  assume "0 \<le> r"
  then have "sqrt (r\<^sup>2) = r" by simp
  then show ?thesis by (metis real_sqrt_less_iff)
qed

lemma update_arming:
  assumes "game_started g" "\<not> game_completed g" "\<not> timing_started g"
    and "start_zone g = [cx, cy, cz]"
    and "first_point (normalize positions) = x # y # z # rest"
  shows "update g positions t1 t2 =
     (let g' = (if sqrt ((x - cx) * (x - cx) + (y - cy) * (y - cy) + (z - cz) * (z - cz))
                     < zone_radius g
                then g\<lparr>timing_started := True, start_time := Some t1\<rparr> else g)
      in (g', Inr (get_state g' (Fin (- 1)))))"
  using assms by (simp add: update_def Let_def)

subsection \<open>Bounds on the distances\<close>

lemma dot_self_nonneg: "0 \<le> dot v v"
proof -
  have "map2 (*) v v = map (\<lambda>x. x * x) v"
    by (induction v) simp_all
  then have "dot v v = (\<Sum>x\<leftarrow>v. x * x)"
    by (simp add: dot_def)
  also have "0 \<le> (\<Sum>x\<leftarrow>v. x * x)"
    by (rule sum_list_nonneg) auto
  finally show ?thesis .
qed

lemma segment_distance_nonneg: "0 \<le> segment_distance P A B"
  by (simp add: segment_distance_def vnorm_def Let_def dot_self_nonneg)

lemma finite_all_distances: "finite (all_distances tr ps)"
  by (simp add: all_distances_Union)


lemma Min_all_distances_zero:
  assumes "q \<in> set ps" "i < length tr - 1" "segment_distance q (tr ! i) (tr ! (i + 1)) = 0"
  shows "Min (all_distances tr ps) = 0"
proof (rule Min_eqI)
  show "finite (all_distances tr ps)" by (rule finite_all_distances)
  show "0 \<le> y" if "y \<in> all_distances tr ps" for y
    using that by (auto simp add: all_distances_def segment_distance_nonneg)
  show "0 \<in> all_distances tr ps"
    unfolding all_distances_def using assms by force
qed

subsection \<open>The states of the example session\<close>

lemma session_armed_eq:
  "session_armed =
     \<lparr>collision_threshold = 0.05, track_points = define_track,
      start_zone = [-0.5, 1.0, 0.0], end_zone = [0.8, 1.1, 0.0], zone_radius = 0.1,
      game_started = True, game_completed = False, timing_started = False,
      start_time = None, elapsed_time = 0, collision_count = 0, is_colliding = False,
      last_collision_time = 0, cooldown = 0.5\<rparr>"
  by (simp add: session_armed_def start_game_def init_def reset_def define_track_def)

lemma session_timing_eq:
  "session_timing = session_armed\<lparr>timing_started := True, start_time := Some 100\<rparr>"
proof -
  have "update session_armed (Point [-0.5, 1.0, 0.0]) 100 100 =
     (let g' = (if sqrt ((- 0.5 - (- 0.5)) * (- 0.5 - (- 0.5)) + (1.0 - 1.0) * (1.0 - 1.0)
                         + (0.0 - 0.0) * (0.0 - 0.0)) < zone_radius session_armed
                then session_armed\<lparr>timing_started := True, start_time := Some 100\<rparr>
                else session_armed)
      in (g', Inr (get_state g' (Fin (- 1)))))"
    by (rule update_arming [where rest = "[]"])
      (simp_all add: session_armed_eq first_point_def)
  then show ?thesis
    by (simp add: session_timing_def Let_def session_armed_eq)
qed

lemma session_timing_record:
  "session_timing =
     \<lparr>collision_threshold = 0.05, track_points = define_track,
      start_zone = [-0.5, 1.0, 0.0], end_zone = [0.8, 1.1, 0.0], zone_radius = 0.1,
      game_started = True, game_completed = False, timing_started = True,
      start_time = Some 100, elapsed_time = 0, collision_count = 0, is_colliding = False,
      last_collision_time = 0, cooldown = 0.5\<rparr>"
  by (simp add: session_timing_eq session_armed_eq)

lemma define_track_wf: "\<forall>p \<in> set define_track. length p = 3" "length define_track = 14"
  by (simp_all add: define_track_def)

lemma last_point_on_track:
  "Min (all_distances define_track [[0.8, 1.1, 0.0]]) = 0"
proof (rule Min_all_distances_zero [where q = "[0.8, 1.1, 0.0]" and i = 12])
  show "[0.8, 1.1, 0.0] \<in> set [[0.8, 1.1, 0.0 :: real]]" by simp
  show "12 < length define_track - 1" by (simp add: define_track_wf)
  show "segment_distance [0.8, 1.1, 0.0] (define_track ! 12) (define_track ! (12 + 1)) = 0"
    by (simp add: define_track_def segment_distance_def vsub_3 vadd_3 smul_3 dot_3
        vnorm_def clamp_def Let_def)
qed

lemma session_done_record:
  "session_done =
     \<lparr>collision_threshold = 0.05, track_points = define_track,
      start_zone = [-0.5, 1.0, 0.0], end_zone = [0.8, 1.1, 0.0], zone_radius = 0.1,
      game_started = True, game_completed = True, timing_started = True,
      start_time = Some 100, elapsed_time = 1, collision_count = 1, is_colliding = True,
      last_collision_time = 101.5, cooldown = 0.5\<rparr>"
proof -
  have "update session_timing (Point [0.8, 1.1, 0.0]) 101 101.5 =
     (let D = Min (all_distances (track_points session_timing) ([0.8, 1.1, 0.0] # []));
          g2 = detect_collision (update_elapsed session_timing 101) (Fin D) 101.5;
          g3 = (if sqrt ((0.8 - 0.8) * (0.8 - 0.8) + (1.1 - 1.1) * (1.1 - 1.1)
                         + (0.0 - 0.0) * (0.0 - 0.0)) < zone_radius session_timing
                then g2\<lparr>game_completed := True\<rparr> else g2)
      in (g3, Inr (get_state g3 (Fin D))))"
    by (rule update_timing_wf) (simp_all add: session_timing_record define_track_wf)
  then show ?thesis
    using last_point_on_track
    by (simp add: session_done_def Let_def session_timing_record
        detect_collision_def update_elapsed_def)
qed

lemma reachable_sessions:
  "reachable session_armed" "reachable session_timing" "reachable session_done"
  unfolding session_armed_def session_timing_def session_done_def
  by (intro reachable.intros)+

lemma update_session_timing_first:
  "fst (update session_timing (Point [-0.5, 1.0, 0.0]) 101 101.5) =
     session_timing\<lparr>elapsed_time := 1, is_colliding := True, collision_count := 1,
                     last_collision_time := 101.5\<rparr>"
proof -
  have m: "Min (all_distances define_track [[-0.5, 1.0, 0.0]]) = 0"
  proof (rule Min_all_distances_zero [where q = "[-0.5, 1.0, 0.0]" and i = 0])
    show "[-0.5, 1.0, 0.0] \<in> set [[-0.5, 1.0, 0.0 :: real]]" by simp
    show "0 < length define_track - 1" by (simp add: define_track_wf)
    show "segment_distance [-0.5, 1.0, 0.0] (define_track ! 0) (define_track ! (0 + 1)) = 0"
      by (simp add: define_track_def segment_distance_def vsub_3 vadd_3 smul_3 dot_3
          vnorm_def clamp_def Let_def)
  qed
  have "update session_timing (Point [-0.5, 1.0, 0.0]) 101 101.5 =
     (let D = Min (all_distances (track_points session_timing) ([-0.5, 1.0, 0.0] # []));
          g2 = detect_collision (update_elapsed session_timing 101) (Fin D) 101.5;
          g3 = (if sqrt ((-0.5 - 0.8) * (-0.5 - 0.8) + (1.0 - 1.1) * (1.0 - 1.1)
                         + (0.0 - 0.0) * (0.0 - 0.0)) < zone_radius session_timing
                then g2\<lparr>game_completed := True\<rparr> else g2)
      in (g3, Inr (get_state g3 (Fin D))))"
    by (rule update_timing_wf) (simp_all add: session_timing_record define_track_wf)
  moreover have "1 < sqrt (17 / 10)" by simp
  ultimately show ?thesis
    using m
    by (simp add: Let_def session_timing_record detect_collision_def update_elapsed_def)
qed

lemma first_point_on_track:
  "Min (all_distances define_track [[-0.5, 1.0, 0.0]]) = 0"
proof (rule Min_all_distances_zero [where q = "[-0.5, 1.0, 0.0]" and i = 0])
  show "[-0.5, 1.0, 0.0] \<in> set [[-0.5, 1.0, 0.0 :: real]]" by simp
  show "0 < length define_track - 1" by (simp add: define_track_wf)
  show "segment_distance [-0.5, 1.0, 0.0] (define_track ! 0) (define_track ! (0 + 1)) = 0"
    by (simp add: define_track_def segment_distance_def vsub_3 vadd_3 smul_3 dot_3
        vnorm_def clamp_def Let_def)
qed

lemma session_restarted_record:
  "session_restarted =
     \<lparr>collision_threshold = 0.05, track_points = define_track,
      start_zone = [-0.5, 1.0, 0.0], end_zone = [0.8, 1.1, 0.0], zone_radius = 0.1,
      game_started = True, game_completed = False, timing_started = False,
      start_time = None, elapsed_time = 0, collision_count = 0, is_colliding = False,
      last_collision_time = 0, cooldown = 0.5\<rparr>"
  by (simp add: session_restarted_def session_done_record start_game_def reset_def)

lemma session_retiming_record:
  "session_retiming =
     \<lparr>collision_threshold = 0.05, track_points = define_track,
      start_zone = [-0.5, 1.0, 0.0], end_zone = [0.8, 1.1, 0.0], zone_radius = 0.1,
      game_started = True, game_completed = False, timing_started = True,
      start_time = Some 101.625, elapsed_time = 0, collision_count = 0, is_colliding = False,
      last_collision_time = 0, cooldown = 0.5\<rparr>"
proof -
  have "update session_restarted (Point [-0.5, 1.0, 0.0]) 101.625 101.625 =
     (let g' = (if sqrt ((- 0.5 - (- 0.5)) * (- 0.5 - (- 0.5)) + (1.0 - 1.0) * (1.0 - 1.0)
                         + (0.0 - 0.0) * (0.0 - 0.0)) < zone_radius session_restarted
                then session_restarted\<lparr>timing_started := True, start_time := Some 101.625\<rparr>
                else session_restarted)
      in (g', Inr (get_state g' (Fin (- 1)))))"
    by (rule update_arming [where rest = "[]"])
      (simp_all add: session_restarted_record first_point_def)
  then show ?thesis
    by (simp add: session_retiming_def Let_def session_restarted_record)
qed

lemma update_session_retiming:
  "fst (update session_retiming (Point [-0.5, 1.0, 0.0]) 101.75 101.75) =
     session_retiming\<lparr>elapsed_time := 0.125, is_colliding := True, collision_count := 1,
                       last_collision_time := 101.75\<rparr>"
proof -
  have "update session_retiming (Point [-0.5, 1.0, 0.0]) 101.75 101.75 =
     (let D = Min (all_distances (track_points session_retiming) ([-0.5, 1.0, 0.0] # []));
          g2 = detect_collision (update_elapsed session_retiming 101.75) (Fin D) 101.75;
          g3 = (if sqrt ((-0.5 - 0.8) * (-0.5 - 0.8) + (1.0 - 1.1) * (1.0 - 1.1)
                         + (0.0 - 0.0) * (0.0 - 0.0)) < zone_radius session_retiming
                then g2\<lparr>game_completed := True\<rparr> else g2)
      in (g3, Inr (get_state g3 (Fin D))))"
    by (rule update_timing_wf) (simp_all add: session_retiming_record define_track_wf)
  moreover have "1 < sqrt (17 / 10)" by simp
  ultimately show ?thesis
    using first_point_on_track
    by (simp add: Let_def session_retiming_record detect_collision_def update_elapsed_def)
qed

lemma reachable_restarted:
  "reachable session_restarted" "reachable session_retiming"
  unfolding session_restarted_def session_retiming_def
  by (intro reachable.intros reachable_sessions)+

lemma update_timing_empty:
  assumes ph: "game_started g" "\<not> game_completed g" "timing_started g"
    and ez: "end_zone g = [cx, cy, cz]"
    and ps: "normalize positions = []"
  shows "update g positions t1 t2 =
     (let g2 = (update_elapsed g t1)\<lparr>is_colliding := False\<rparr>;
          g3 = (if sqrt ((0 - cx) * (0 - cx) + (0 - cy) * (0 - cy) + (0 - cz) * (0 - cz))
                     < zone_radius g
                then g2\<lparr>game_completed := True\<rparr> else g2)
      in (g3, Inr (get_state g3 PInf)))"
  using ph
  by (simp add: update_def ps first_point_def Let_def detect_collision_def
      update_elapsed_config ez)




subsection \<open>Square roots and the guard on short segments\<close>

lemma sqrt_eq_iff_square: "0 \<le> y \<Longrightarrow> sqrt x = y \<longleftrightarrow> x = y\<^sup>2"
proof
  assume "0 \<le> y" "sqrt x = y"
  then have "0 \<le> x" using real_sqrt_ge_0_iff by metis
  then have "(sqrt x)\<^sup>2 = x" by simp
  with \<open>sqrt x = y\<close> show "x = y\<^sup>2" by simp
next
  assume "0 \<le> y" "x = y\<^sup>2"
  then show "sqrt x = y" by simp
qed

lemma vnorm_3: "vnorm [a, b, c] = sqrt (a * a + b * b + c * c)"
  by (simp add: vnorm_def dot_3)

text \<open>
  The guard on short segments: from \<open>A = (0, 0, 0)\<close> to \<open>B = (1e-6, 0, 0)\<close> the
  squared length \<open>1e-12\<close> is below \<open>1e-10\<close>, so for \<open>P = B\<close> the function returns the
  distance \<open>1e-6\<close> from \<open>P\<close> to \<open>A\<close>.
\<close>

lemma short_segment_measured_from_start:
  "point_to_segment_distance [1 / 10 ^ 6, 0, 0] [0, 0, 0] [1 / 10 ^ 6, 0, 0] = Inr (1 / 10 ^ 6)"
proof -
  let ?e = "1 / 10 ^ 6 :: real"
  have short: "(?e - 0) * (?e - 0) + (0 - 0) * (0 - 0) + (0 - 0) * (0 - 0) < (1 / 10 ^ 10 :: real)"
    by simp
  have root: "sqrt ((?e - 0) * (?e - 0) + (0 - 0) * (0 - 0) + (0 - 0) * (0 - 0)) = ?e"
    by (subst sqrt_eq_iff_square) (simp_all add: power2_eq_square)
  show ?thesis
    by (simp only: point_to_segment_distance.simps Let_def short if_True root)
qed

section \<open>The claims\<close>

text \<open>
  C1, as the code has it. An \<open>update\<close> adds exactly one to \<open>collision_count\<close>, and
  sets \<open>last_collision_time\<close> to the current time, when \<open>is_colliding\<close> goes from
  false to true and the current time is more than the cooldown of 0.5 after
  \<open>last_collision_time\<close>; in every other case it leaves both as they were. So over
  any sequence of \<open>update\<close> calls, with no \<open>start_game\<close> or \<open>reset\<close> between them, the
  count never decreases and the times of two successive increments are more than 0.5
  apart. \<open>start_game\<close> and \<open>reset\<close> put \<open>collision_count\<close> and
  \<open>last_collision_time\<close> back to 0.
\<close>

theorem collision_count_respects_cooldown:
  "reachable g \<Longrightarrow>
     collision_count (fst (update g positions t_timer t_coll)) =
       (if \<not> is_colliding g \<and> is_colliding (fst (update g positions t_timer t_coll)) \<and>
           0.5 < t_coll - last_collision_time g
        then collision_count g + 1 else collision_count g)
   \<and> last_collision_time (fst (update g positions t_timer t_coll)) =
       (if \<not> is_colliding g \<and> is_colliding (fst (update g positions t_timer t_coll)) \<and>
           0.5 < t_coll - last_collision_time g
        then t_coll else last_collision_time g)
   \<and> collision_count g \<le> collision_count (run_updates g calls)
   \<and> successively (\<lambda>a b. 0.5 < b - a) (last_collision_time g # increment_times g calls)
   \<and> collision_count (start_game g) = 0 \<and> last_collision_time (start_game g) = 0
   \<and> collision_count (reset g) = 0 \<and> last_collision_time (reset g) = 0"
proof -
  assume "reachable g"
  then have cd: "cooldown g = 0.5" by (simp add: reachable_config)
  have restart: "collision_count (start_game g) = 0 \<and> last_collision_time (start_game g) = 0
      \<and> collision_count (reset g) = 0 \<and> last_collision_time (reset g) = 0"
    by (simp add: start_game_def reset_def)
  show ?thesis
    using update_collision_step [of g positions t_timer t_coll]
      run_updates_count_mono [of g calls] increment_times_spaced [of g calls] restart
    by (simp only: cd)
qed

theorem collision_count_respects_cooldown_witness:
  "collision_count (fst (update session_timing (Point [-0.5, 1.0, 0.0]) 101 101.5)) = 1
   \<and> last_collision_time (fst (update session_timing (Point [-0.5, 1.0, 0.0]) 101 101.5)) = 101.5
   \<and> 0 \<le> collision_count (run_updates session_timing [(Point [-0.5, 1.0, 0.0], 101, 101.5)])
   \<and> successively (\<lambda>a b. 0.5 < b - a)
        (0 # increment_times session_timing [(Point [-0.5, 1.0, 0.0], 101, 101.5)])
   \<and> collision_count (start_game session_timing) = 0"
proof -
  have c: "collision_count session_timing = 0" "last_collision_time session_timing = 0"
    "\<not> is_colliding session_timing"
    by (simp_all add: session_timing_record)
  show ?thesis
    using collision_count_respects_cooldown [OF reachable_sessions(2),
        of "Point [-0.5, 1.0, 0.0]" 101 "101.5" "[(Point [-0.5, 1.0, 0.0], 101, 101.5)]"]
      update_session_timing_first
    by (simp add: c Let_def)
qed

text \<open>
  C1 as stated fails over sequences of operations that contain \<open>start_game\<close>. The
  session played to the end has counted one collision, at time 101.5. A
  \<open>start_game\<close> on it takes the count from 1 to 0; and after the first point has
  started the timing again, an \<open>update\<close> at time 101.75 counts a collision, 0.25
  after the previous increment.
\<close>

theorem collision_count_respects_cooldown_counterexample:
  "reachable session_done
   \<and> collision_count session_done = 1 \<and> last_collision_time session_done = 101.5
   \<and> collision_count (start_game session_done) = 0
   \<and> collision_count (start_game session_done) < collision_count session_done
   \<and> session_retiming =
       fst (update (start_game session_done) (Point [-0.5, 1.0, 0.0]) 101.625 101.625)
   \<and> collision_count session_retiming = 0
   \<and> collision_count (fst (update session_retiming (Point [-0.5, 1.0, 0.0]) 101.75 101.75)) = 1
   \<and> last_collision_time (fst (update session_retiming (Point [-0.5, 1.0, 0.0]) 101.75 101.75))
       = 101.75
   \<and> (101.75 :: real) - 101.5 < 0.5"
proof -
  have a: "collision_count session_done = 1" "last_collision_time session_done = 101.5"
    by (simp_all add: session_done_record)
  have b: "collision_count (start_game session_done) = 0"
    by (simp add: start_game_def reset_def)
  have c: "session_retiming =
       fst (update (start_game session_done) (Point [-0.5, 1.0, 0.0]) 101.625 101.625)"
    by (simp only: session_retiming_def session_restarted_def)
  have d: "collision_count session_retiming = 0"
    by (simp add: session_retiming_record)
  have e: "collision_count (fst (update session_retiming (Point [-0.5, 1.0, 0.0]) 101.75 101.75)) = 1"
    "last_collision_time (fst (update session_retiming (Point [-0.5, 1.0, 0.0]) 101.75 101.75))
       = 101.75"
    by (simp_all only: update_session_retiming) simp_all
  have f: "(101.75 :: real) - 101.5 < 0.5" by simp
  show ?thesis
    using reachable_sessions(3) a b c d e f by (intro conjI) simp_all
qed

text \<open>
  C2. On a point \<open>P\<close> and a segment from \<open>A\<close> to \<open>B\<close>, with \<open>v = B - A\<close> and
  \<open>w = P - A\<close>, \<open>_point_to_segment_distance\<close> returns \<open>|w|\<close> when \<open>v \<cdot> v < 1e-10\<close>,
  and otherwise \<open>|P - (A + t v)|\<close> for \<open>t\<close> the quotient \<open>w \<cdot> v / v \<cdot> v\<close> clamped to
  \<open>[0, 1]\<close>. For \<open>A = B\<close> it is the Euclidean distance from \<open>P\<close> to \<open>A\<close>.
\<close>

theorem point_to_segment_distance_formula:
  "point_to_segment_distance [px, py, pz] [ax, ay, az] [bx, by, bz] =
     Inr (let P = [px, py, pz]; A = [ax, ay, az]; B = [bx, by, bz];
              v = vsub B A; w = vsub P A
          in if dot v v < 1 / 10 ^ 10 then vnorm w
             else vnorm (vsub P (vadd A (smul (clamp (dot w v / dot v v) 0 1) v))))
   \<and> point_to_segment_distance [px, py, pz] [ax, ay, az] [ax, ay, az] =
       Inr (vnorm (vsub [px, py, pz] [ax, ay, az]))
   \<and> vnorm (vsub [px, py, pz] [ax, ay, az]) =
       sqrt ((px - ax)\<^sup>2 + (py - ay)\<^sup>2 + (pz - az)\<^sup>2)"
proof (intro conjI)
  show "point_to_segment_distance [px, py, pz] [ax, ay, az] [bx, by, bz] =
     Inr (let P = [px, py, pz]; A = [ax, ay, az]; B = [bx, by, bz];
              v = vsub B A; w = vsub P A
          in if dot v v < 1 / 10 ^ 10 then vnorm w
             else vnorm (vsub P (vadd A (smul (clamp (dot w v / dot v v) 0 1) v))))"
    by (simp only: point_to_segment_distance_3 segment_distance_def Let_def)
  show "point_to_segment_distance [px, py, pz] [ax, ay, az] [ax, ay, az] =
       Inr (vnorm (vsub [px, py, pz] [ax, ay, az]))"
    by (simp add: vsub_3 vnorm_3 Let_def)
  show "vnorm (vsub [px, py, pz] [ax, ay, az]) =
       sqrt ((px - ax)\<^sup>2 + (py - ay)\<^sup>2 + (pz - az)\<^sup>2)"
    by (simp add: vsub_3 vnorm_3 power2_eq_square)
qed

theorem point_to_segment_distance_formula_witness:
  "point_to_segment_distance [0.5, 0.0, 0.0] [0, 0, 0] [1, 0, 0] = Inr 0
   \<and> point_to_segment_distance [0.5, 1.0, 0.0] [0, 0, 0] [1, 0, 0] = Inr 1
   \<and> point_to_segment_distance [3, 4, 0] [0, 0, 0] [0, 0, 0] = Inr 5"
proof -
  have s: "sqrt ((3 - 0)\<^sup>2 + (4 - 0)\<^sup>2 + (0 - 0)\<^sup>2) = (5::real)"
    by (subst sqrt_eq_iff_square) simp_all
  show ?thesis
    using point_to_segment_distance_formula [of "0.5" "0.0" "0.0" 0 0 0 1 0 0]
      point_to_segment_distance_formula [of "0.5" "1.0" "0.0" 0 0 0 1 0 0]
      point_to_segment_distance_formula [of 3 4 0 0 0 0 0 0 0, unfolded s]
    by (simp add: Let_def vsub_3 vadd_3 smul_3 dot_3 vnorm_3 clamp_def)
qed

text \<open>
  C3. When the game is not started, or is already completed, \<open>update\<close> changes no
  attribute of the object, whatever the positions, and returns the snapshot of the
  object as it is, with \<open>distance_to_track\<close> the sentinel \<open>-1\<close>.
\<close>

theorem update_inactive_is_noop:
  "\<not> game_started g \<or> game_completed g \<Longrightarrow>
     update g positions t_timer t_coll =
       (g, Inr \<lparr>snap_game_started = game_started g,
                snap_game_completed = game_completed g,
                snap_timing_started = timing_started g,
                snap_elapsed_time = py_round (elapsed_time g) 2,
                snap_collision_count = collision_count g,
                snap_is_colliding = is_colliding g,
                snap_distance_to_track = Fin (- 1),
                snap_collision_threshold = collision_threshold g\<rparr>)"
  by (simp add: update_when_inactive get_state_def)

theorem update_inactive_is_noop_witness:
  "update (init 0.05) (Point [0.8, 1.1, 0.0]) 5 6 =
     (init 0.05,
      Inr \<lparr>snap_game_started = False, snap_game_completed = False,
           snap_timing_started = False, snap_elapsed_time = 0,
           snap_collision_count = 0, snap_is_colliding = False,
           snap_distance_to_track = Fin (- 1), snap_collision_threshold = 0.05\<rparr>)
   \<and> update session_done (Points [[0.0, 1.15, 0.1], [0.1, 1.25, 0.05]]) 200 201 =
     (session_done,
      Inr \<lparr>snap_game_started = True, snap_game_completed = True,
           snap_timing_started = True, snap_elapsed_time = 1,
           snap_collision_count = 1, snap_is_colliding = True,
           snap_distance_to_track = Fin (- 1), snap_collision_threshold = 0.05\<rparr>)"
proof -
  have h1: "\<not> game_started (init 0.05) \<or> game_completed (init 0.05)"
    by (simp add: init_def reset_def)
  have h2: "\<not> game_started session_done \<or> game_completed session_done"
    by (simp add: session_done_record)
  have r0: "py_round 0 2 = 0" "py_round 1 2 = 1"
    by (simp_all add: py_round_def round_half_even_def)
  show ?thesis
    using update_inactive_is_noop [OF h1, of "Point [0.8, 1.1, 0.0]" 5 6]
      update_inactive_is_noop [OF h2, of "Points [[0.0, 1.15, 0.1], [0.1, 1.25, 0.05]]" 200 201]
    by (simp add: r0 session_done_record) (simp add: init_def reset_def r0)
qed





text \<open>
  C6. Once \<open>game_completed\<close> is true, no sequence of further \<open>update\<close> calls, with
  any positions and clock readings, changes \<open>elapsed_time\<close>; the game stays
  completed.
\<close>

theorem elapsed_time_frozen_once_completed:
  "game_completed g \<Longrightarrow>
     elapsed_time (run_updates g calls) = elapsed_time g \<and> game_completed (run_updates g calls)"
  by (simp add: run_updates_completed)

theorem elapsed_time_frozen_once_completed_witness:
  "elapsed_time
     (run_updates session_done
        [(Point [0.8, 1.1, 0.0], 150, 151), (Points [[-0.5, 1.0, 0.0]], 200, 201)]) = 1
   \<and> game_completed
     (run_updates session_done
        [(Point [0.8, 1.1, 0.0], 150, 151), (Points [[-0.5, 1.0, 0.0]], 200, 201)])"
proof -
  have h: "game_completed session_done" by (simp add: session_done_record)
  have e: "elapsed_time session_done = 1" by (simp add: session_done_record)
  show ?thesis
    using elapsed_time_frozen_once_completed [OF h,
        of "[(Point [0.8, 1.1, 0.0], 150, 151), (Points [[-0.5, 1.0, 0.0]], 200, 201)]"]
    by (simp only: e)
qed

text \<open>
  C7. In every object that the constructor and any sequence of \<open>reset\<close>,
  \<open>start_game\<close> and \<open>update\<close> calls produce, a completed game is started and its
  timing has started.
\<close>

theorem completed_implies_started_and_timing:
  "reachable g \<Longrightarrow> game_completed g \<longrightarrow> game_started g \<and> timing_started g"
proof (induction rule: reachable.induct)
  case (reach_init thr)
  show ?case by (simp add: init_def reset_def)
next
  case (reach_reset g)
  show ?case by (simp add: reset_def)
next
  case (reach_start g)
  show ?case by (simp add: start_game_def reset_def)
next
  case (reach_update g ps t_timer t_coll)
  from reach_update.IH show ?case by (rule update_keeps_completed_inv)
qed

theorem completed_implies_started_and_timing_witness:
  "reachable session_done \<and> game_completed session_done \<and> game_started session_done
   \<and> timing_started session_done"
proof -
  have c: "game_completed session_done" by (simp add: session_done_record)
  show ?thesis
    using completed_implies_started_and_timing [OF reachable_sessions(3)] c
      reachable_sessions(3) by simp
qed

text \<open>
  C8. \<open>start_game\<close> gives the same object whatever the session attributes were
  before: not timing, not completed, no collision counted, not colliding, elapsed
  time zero, no start time, started. Calling it any number of times more changes
  nothing further.
\<close>

theorem start_game_is_full_reset:
  "start_game (g\<lparr>game_started := a, game_completed := b, timing_started := c,
                 start_time := d, elapsed_time := e, collision_count := n,
                 is_colliding := f, last_collision_time := l, cooldown := k\<rparr>)
     = g\<lparr>game_started := True, game_completed := False, timing_started := False,
          start_time := None, elapsed_time := 0, collision_count := 0,
          is_colliding := False, last_collision_time := 0, cooldown := 0.5\<rparr>
   \<and> start_game ((start_game ^^ m) g) = start_game g"
proof -
  have idem: "start_game (start_game h) = start_game h" for h
    by (simp add: start_game_def reset_def)
  have "start_game ((start_game ^^ m) g) = start_game g"
    by (induction m) (simp_all add: idem)
  then show ?thesis by (simp add: start_game_def reset_def)
qed

text \<open>
  C10. On an empty list of positions, with the game started and not completed,
  \<open>update\<close> raises nothing. The point for the zone tests is the origin, which is in
  neither zone. Before timing has started the object is unchanged; after, the
  minimum over no points is \<open>float('inf')\<close>, \<open>is_colliding\<close> becomes false and
  \<open>collision_count\<close> is unchanged.
\<close>

theorem update_on_empty_positions:
  "reachable g \<Longrightarrow> game_started g \<Longrightarrow> \<not> game_completed g \<Longrightarrow>
   positions = Point [] \<or> positions = Points [] \<Longrightarrow>
     first_point (normalize positions) = [0, 0, 0]
   \<and> min_over_points g (normalize positions) PInf = Inr PInf
   \<and> update g positions t_timer t_coll =
       (if timing_started g
        then ((update_elapsed g t_timer)\<lparr>is_colliding := False\<rparr>,
              Inr (get_state ((update_elapsed g t_timer)\<lparr>is_colliding := False\<rparr>) PInf))
        else (g, Inr (get_state g (Fin (- 1)))))
   \<and> collision_count (fst (update g positions t_timer t_coll)) = collision_count g
   \<and> (timing_started g \<longrightarrow> \<not> is_colliding (fst (update g positions t_timer t_coll)))"
proof -
  assume r: "reachable g" and ph: "game_started g" "\<not> game_completed g"
    and e: "positions = Point [] \<or> positions = Points []"
  from e have n: "normalize positions = []" by auto
  from r have cfg: "start_zone g = [- 0.5, 1.0, 0.0]" "end_zone g = [0.8, 1.1, 0.0]"
    "zone_radius g = 0.1"
    by (simp_all add: reachable_config)
  have fp: "first_point (normalize positions) = [0, 0, 0]"
    by (simp add: n first_point_def)
  have out_start: "(sqrt ((0 - (- 0.5)) * (0 - (- 0.5)) + (0 - 1.0) * (0 - 1.0)
                       + (0 - 0.0) * (0 - 0.0)) < (0.1::real)) = False"
    by (subst sqrt_less_iff_square) (simp_all add: power2_eq_square)
  have out_end: "(sqrt ((0 - 0.8) * (0 - 0.8) + (0 - 1.1) * (0 - 1.1)
                       + (0 - 0.0) * (0 - 0.0)) < (0.1::real)) = False"
    by (subst sqrt_less_iff_square) (simp_all add: power2_eq_square)
  have arming: "update g positions t_timer t_coll = (g, Inr (get_state g (Fin (- 1))))"
    if "\<not> timing_started g"
    using update_arming [OF ph that cfg(1) fp, of t_timer t_coll]
    by (simp only: cfg(3) out_start if_False Let_def)
  have timing: "update g positions t_timer t_coll =
       ((update_elapsed g t_timer)\<lparr>is_colliding := False\<rparr>,
        Inr (get_state ((update_elapsed g t_timer)\<lparr>is_colliding := False\<rparr>) PInf))"
    if "timing_started g"
    using update_timing_empty [OF ph that cfg(2) n, of t_timer t_coll]
    by (simp only: cfg(3) out_end if_False Let_def)
  show ?thesis
    using arming timing by (simp add: n first_point_def update_elapsed_config)
qed

theorem update_on_empty_positions_witness:
  "update session_armed (Points []) 100 100.25 = (session_armed, Inr (get_state session_armed (Fin (- 1))))
   \<and> update session_timing (Point []) 103 103.25 =
       (session_timing\<lparr>elapsed_time := 3\<rparr>,
        Inr \<lparr>snap_game_started = True, snap_game_completed = False,
             snap_timing_started = True, snap_elapsed_time = 3,
             snap_collision_count = 0, snap_is_colliding = False,
             snap_distance_to_track = PInf, snap_collision_threshold = 0.05\<rparr>)"
proof -
  have ph: "game_started session_armed" "\<not> game_completed session_armed"
    "\<not> timing_started session_armed"
    by (simp_all add: session_armed_eq)
  have ph': "game_started session_timing" "\<not> game_completed session_timing"
    "timing_started session_timing"
    by (simp_all add: session_timing_record)
  have r3: "py_round 3 2 = 3"
    by (simp add: py_round_def round_half_even_def)
  have e: "update_elapsed session_timing 103 = session_timing\<lparr>elapsed_time := 3\<rparr>"
    by (simp add: update_elapsed_def session_timing_record)
  show ?thesis
    using update_on_empty_positions [OF reachable_sessions(1) ph(1,2),
        where positions = "Points []" and t_timer = 100 and t_coll = "100.25"]
      update_on_empty_positions [OF reachable_sessions(2) ph'(1,2),
        where positions = "Point []" and t_timer = 103 and t_coll = "103.25"]
    by (simp add: ph ph' e) (simp add: get_state_def session_timing_record r3)
qed

end
